theory Spec2Isabelle
  imports Main
begin

section \<open>Python values and text\<close>

text \<open>
  A Python \<open>str\<close> is modelled as a \<open>string\<close>, one \<open>char\<close> per character, so that
  \<open>length\<close> is Python's \<open>len\<close> and \<open>take n\<close> is the slice \<open>[:n]\<close> for \<open>n \<ge> 0\<close>.
  Python's \<open>int\<close> is unbounded and is modelled as \<open>int\<close>; \<open>//\<close> and \<open>%\<close> round towards
  minus infinity, as \<open>div\<close> and \<open>mod\<close> on \<open>int\<close> do.
\<close>

definition digit_char :: "nat \<Rightarrow> char" where
  "digit_char d = ''0123456789'' ! d"

text \<open>\<open>str(n)\<close> for a natural number: the decimal digits, most significant first.\<close>

fun str_nat :: "nat \<Rightarrow> string" where
  "str_nat n = (if n < 10 then [digit_char n] else str_nat (n div 10) @ [digit_char (n mod 10)])"

declare str_nat.simps [simp del]

text \<open>\<open>str(i)\<close> for an integer, which is also what an f-string field \<open>{i}\<close> renders.\<close>

definition str_int :: "int \<Rightarrow> string" where
  "str_int i = (if i < 0 then CHR ''-'' # str_nat (nat (- i)) else str_nat (nat i))"

section \<open>utils.py\<close>

text \<open>
  \<open>format_duration(seconds)\<close>, lines 9 to 20 of utils.py: the three components are
  computed first, then the first matching branch of the \<open>if\<close>/\<open>elif\<close>/\<open>else\<close> chain
  builds the f-string.
\<close>

definition format_duration :: "int \<Rightarrow> string" where
  "format_duration seconds =
     (let hours = seconds div 3600;
          minutes = (seconds mod 3600) div 60;
          secs = seconds mod 60
      in if hours > 0 then
           str_int hours @ ''h '' @ str_int minutes @ ''m '' @ str_int secs @ ''s''
         else if minutes > 0 then
           str_int minutes @ ''m '' @ str_int secs @ ''s''
         else str_int secs @ ''s'')"


section \<open>Exceptions and values\<close>

text \<open>
  The exceptions of the program, by class; each carries the text that \<open>str(e)\<close> gives.
  \<open>ValidationError\<close> is pydantic's: it lists the failed fields with the message of the
  validator that rejected each, and it is a subclass of \<open>ValueError\<close>. Every value of
  this type is an instance of \<open>Exception\<close>: signals such as \<open>KeyboardInterrupt\<close>, which
  derive from \<open>BaseException\<close> only and are no failure of a provider, are outside the model.
\<close>

datatype exn =
    ValueError string
  | TypeError string
  | ValidationError "(string \<times> string) list"
  | Exception string

text \<open>What \<open>except ValueError\<close> catches.\<close>

fun is_ValueError :: "exn \<Rightarrow> bool" where
  "is_ValueError (ValueError m) = True"
| "is_ValueError (ValidationError errs) = True"
| "is_ValueError (TypeError m) = False"
| "is_ValueError (Exception m) = False"

text \<open>
  \<open>str(e)\<close>. For a \<open>ValidationError\<close> the layout is pydantic's (a count line, then
  each field with its message); no property below depends on that layout.
\<close>

fun str_exn :: "exn \<Rightarrow> string" where
  "str_exn (ValueError m) = m"
| "str_exn (TypeError m) = m"
| "str_exn (Exception m) = m"
| "str_exn (ValidationError errs) =
     str_nat (length errs) @ '' validation error'' @ (if length errs = 1 then [] else ''s'')
       @ '' for VideoQuery''
       @ concat (map (\<lambda>(field, m). ''\<newline>'' @ field @ ''\<newline>  '' @ m @ '' (type=value_error)'') errs)"

text \<open>
  The values held by the \<open>Dict[str, Any]\<close> records of the program: \<open>None\<close>, an
  integer or a string. A key that is missing from a dictionary is \<open>None\<close> of the map.
\<close>

datatype pyval = PyNone | PyInt int | PyStr string

type_synonym pydict = "string \<rightharpoonup> pyval"

text \<open>\<open>d.get(k, dflt)\<close>, the value under \<open>k\<close> or else the default.\<close>

definition dict_get :: "pydict \<Rightarrow> string \<Rightarrow> pyval \<Rightarrow> pyval" where
  "dict_get d k dflt = (case d k of None \<Rightarrow> dflt | Some v \<Rightarrow> v)"

text \<open>The truth value of \<open>if v:\<close>.\<close>

fun truthy :: "pyval \<Rightarrow> bool" where
  "truthy PyNone = False"
| "truthy (PyInt i) = (i \<noteq> 0)"
| "truthy (PyStr s) = (s \<noteq> [])"

text \<open>An f-string field \<open>{v}\<close>.\<close>

fun py_str :: "pyval \<Rightarrow> string" where
  "py_str PyNone = ''None''"
| "py_str (PyInt i) = str_int i"
| "py_str (PyStr s) = s"

text \<open>The slice \<open>s[:n]\<close>; a negative \<open>n\<close> counts from the end.\<close>

definition slice_to :: "string \<Rightarrow> int \<Rightarrow> string" where
  "slice_to s n = (if 0 \<le> n then take (nat n) s else take (nat (int (length s) + n)) s)"

text \<open>\<open>sep.join(items)\<close> on strings.\<close>

fun join :: "string \<Rightarrow> string list \<Rightarrow> string" where
  "join sep [] = []"
| "join sep [x] = x"
| "join sep (x # y # ys) = x @ sep @ join sep (y # ys)"

text \<open>\<open>sep.join(items)\<close> on values: an item that is not a string raises \<open>TypeError\<close>.\<close>

fun str_items :: "pyval list \<Rightarrow> exn + string list" where
  "str_items [] = Inr []"
| "str_items (PyStr s # vs) = (case str_items vs of Inl e \<Rightarrow> Inl e | Inr ss \<Rightarrow> Inr (s # ss))"
| "str_items (v # vs) = Inl (TypeError ''sequence item: expected str instance'')"

definition py_join :: "string \<Rightarrow> pyval list \<Rightarrow> exn + string" where
  "py_join sep items = (case str_items items of Inl e \<Rightarrow> Inl e | Inr ss \<Rightarrow> Inr (join sep ss))"

text \<open>The format specification \<open>{i:,}\<close> of an integer: digits grouped in threes.\<close>

function group_thousands :: "string \<Rightarrow> string" where
  "group_thousands ds =
     (if length ds \<le> 3 then ds
      else group_thousands (take (length ds - 3) ds) @ '','' @ drop (length ds - 3) ds)"
  by pat_completeness auto
termination
  by (relation "measure length") auto

declare group_thousands.simps [simp del]

definition format_comma :: "int \<Rightarrow> string" where
  "format_comma i =
     (if i < 0 then CHR ''-'' # group_thousands (str_nat (nat (- i)))
      else group_thousands (str_nat (nat i)))"

section \<open>Regular expressions\<close>

text \<open>
  The fragment of Python's \<open>re\<close> that the three URL patterns use: literal text, a
  character class repeated a fixed number of times, an optional (greedy) group and
  sequencing. \<open>run r s\<close> lists what is left of \<open>s\<close> after each way \<open>r\<close> can match a prefix
  of it, in the order in which the backtracking matcher tries them: an optional group is
  tried present first, then absent.
\<close>

datatype regex = Lit string | ClassN "char \<Rightarrow> bool" nat | Opt regex | Seq regex regex

fun run :: "regex \<Rightarrow> string \<Rightarrow> string list" where
  "run (Lit l) s = (if take (length l) s = l then [drop (length l) s] else [])"
| "run (ClassN P n) s = (if n \<le> length s \<and> list_all P (take n s) then [drop n s] else [])"
| "run (Opt r) s = run r s @ [s]"
| "run (Seq a b) s = concat (map (run b) (run a s))"

text \<open>
  A pattern of the shape \<open>pre(grp)\<close>: some text, then the one capturing group, which
  ends the pattern. All three URL patterns have this shape.
\<close>

record pattern =
  pre :: regex
  grp :: regex

text \<open>The texts captured by group 1, for each way the pattern matches at the start of \<open>s\<close>.\<close>

definition match_at :: "pattern \<Rightarrow> string \<Rightarrow> string list" where
  "match_at p s =
     concat (map (\<lambda>r. map (\<lambda>r'. take (length r - length r') r) (run (grp p) r)) (run (pre p) s))"

text \<open>
  \<open>re.match(p, s)\<close>: the pattern must match at the start of \<open>s\<close>; what follows the match
  is free. The result is \<open>None\<close>, or \<open>group(1)\<close> of the match found first.
\<close>

definition re_match :: "pattern \<Rightarrow> string \<Rightarrow> string option" where
  "re_match p s = (case match_at p s of [] \<Rightarrow> None | g # gs \<Rightarrow> Some g)"

text \<open>\<open>re.search(p, s)\<close>: the leftmost position of \<open>s\<close> at which the pattern matches.\<close>

fun re_search :: "pattern \<Rightarrow> string \<Rightarrow> string option" where
  "re_search p [] = re_match p []"
| "re_search p (c # cs) =
     (case re_match p (c # cs) of Some g \<Rightarrow> Some g | None \<Rightarrow> re_search p cs)"

section \<open>schemas.py\<close>

text \<open>The class \<open>[a-zA-Z0-9_-]\<close>.\<close>

definition id_char :: "char \<Rightarrow> bool" where
  "id_char c =
     (let n = (of_char c :: nat)
      in (97 \<le> n \<and> n \<le> 122) \<or> (65 \<le> n \<and> n \<le> 90) \<or> (48 \<le> n \<and> n \<le> 57)
         \<or> c = CHR ''_'' \<or> c = CHR ''-'')"

text \<open>\<open>(?:https?://)?\<close> and \<open>(?:www\.)?\<close>.\<close>

definition opt_scheme :: regex where
  "opt_scheme = Opt (Seq (Lit ''http'') (Seq (Opt (Lit ''s'')) (Lit ''://'')))"

definition opt_www :: regex where
  "opt_www = Opt (Lit ''www.'')"

text \<open>
  The list \<open>youtube_patterns\<close>, which \<open>validate_youtube_url\<close> and \<open>extract_video_id\<close>
  each write out: the watch page, the short link and the embed shape.
\<close>

definition youtube_patterns :: "pattern list" where
  "youtube_patterns =
     [\<lparr>pre = Seq opt_scheme (Seq opt_www (Lit ''youtube.com/watch?v='')),
       grp = ClassN id_char 11\<rparr>,
      \<lparr>pre = Seq opt_scheme (Seq opt_www (Lit ''youtu.be/'')),
       grp = ClassN id_char 11\<rparr>,
      \<lparr>pre = Seq opt_scheme (Seq opt_www (Lit ''youtube.com/embed/'')),
       grp = ClassN id_char 11\<rparr>]"

record VideoQuery =
  url :: string
  max_transcript_length :: int
  include_comments :: bool
  language :: string

text \<open>
  \<open>validate_youtube_url\<close>, lines 16 to 29: the loop returns the value at the first
  pattern that \<open>re.match\<close> accepts, and raises when the patterns are used up.
\<close>

fun validate_loop :: "pattern list \<Rightarrow> string \<Rightarrow> exn + string" where
  "validate_loop [] v = Inl (ValueError ''Invalid YouTube URL format'')"
| "validate_loop (p # ps) v =
     (case re_match p v of Some m \<Rightarrow> Inr v | None \<Rightarrow> validate_loop ps v)"

definition validate_youtube_url :: "string \<Rightarrow> exn + string" where
  "validate_youtube_url v = validate_loop youtube_patterns v"

text \<open>\<open>validate_transcript_length\<close>, lines 31 to 36.\<close>

definition validate_transcript_length :: "int \<Rightarrow> exn + int" where
  "validate_transcript_length v =
     (if v < 100 then Inl (ValueError ''Transcript length must be at least 100 characters'')
      else Inr v)"

text \<open>
  \<open>extract_video_id\<close>, lines 38 to 51: the loop returns \<open>group(1)\<close> at the first
  pattern that \<open>re.search\<close> finds anywhere in the URL, and raises when the patterns are
  used up.
\<close>

fun extract_loop :: "pattern list \<Rightarrow> string \<Rightarrow> exn + string" where
  "extract_loop [] u = Inl (ValueError ''Could not extract video ID from URL'')"
| "extract_loop (p # ps) u =
     (case re_search p u of Some g \<Rightarrow> Inr g | None \<Rightarrow> extract_loop ps u)"

definition extract_video_id :: "VideoQuery \<Rightarrow> exn + string" where
  "extract_video_id self = extract_loop youtube_patterns (url self)"

text \<open>
  The constructor \<open>VideoQuery(url=..., max_transcript_length=..., language=...,
  include_comments=...)\<close> with every field given, as main.py calls it. Pydantic runs the
  validators of the fields in the order of their declaration, stores what each returns,
  and raises one \<open>ValidationError\<close> listing every field whose validator raised.
\<close>

definition field_errors :: "string \<Rightarrow> exn + 'a \<Rightarrow> (string \<times> string) list" where
  "field_errors field r = (case r of Inl e \<Rightarrow> [(field, str_exn e)] | Inr v \<Rightarrow> [])"

definition VideoQuery_init :: "string \<Rightarrow> int \<Rightarrow> bool \<Rightarrow> string \<Rightarrow> exn + VideoQuery" where
  "VideoQuery_init u n ic lang =
     (case (validate_youtube_url u, validate_transcript_length n) of
        (Inr u', Inr n') \<Rightarrow>
          Inr \<lparr>url = u', max_transcript_length = n', include_comments = ic, language = lang\<rparr>
      | (r1, r2) \<Rightarrow>
          Inl (ValidationError
                 (field_errors ''url'' r1 @ field_errors ''max_transcript_length'' r2)))"

section \<open>Effects\<close>

text \<open>
  The calls that leave the program (one event per call of a provider) and the lines it
  prints. A computation is its outcome, an exception or a value, with the events it caused
  in order. The \<open>async\<close> methods hand their blocking closures to an executor and await
  them at once, so the calls happen one after the other, in program order.
\<close>

datatype event =
    YtDlpExtractInfo string
  | PytubeYouTube string
  | ListTranscripts string
  | TranscriptFetch string
  | Print string

fun is_fetch :: "event \<Rightarrow> bool" where
  "is_fetch (Print m) = False"
| "is_fetch ev = True"

type_synonym 'a io = "(exn + 'a) \<times> event list"

definition io_return :: "'a \<Rightarrow> 'a io" where
  "io_return x = (Inr x, [])"

text \<open>A computation without effects that may raise.\<close>

definition io_lift :: "exn + 'a \<Rightarrow> 'a io" where
  "io_lift r = (r, [])"

text \<open>A call of a provider: the event, and what the provider answered.\<close>

definition io_call :: "event \<Rightarrow> exn + 'a \<Rightarrow> 'a io" where
  "io_call ev r = (r, [ev])"

definition io_print :: "string \<Rightarrow> unit io" where
  "io_print m = (Inr (), [Print m])"

text \<open>Sequencing: an exception of the first part skips the second.\<close>

definition io_bind :: "'a io \<Rightarrow> ('a \<Rightarrow> 'b io) \<Rightarrow> 'b io" where
  "io_bind m f =
     (case m of
        (Inl e, evs) \<Rightarrow> (Inl e, evs)
      | (Inr x, evs) \<Rightarrow> (case f x of (r, evs') \<Rightarrow> (r, evs @ evs')))"

text \<open>\<open>try: m  except Exception as e: h e\<close>.\<close>

definition io_try :: "'a io \<Rightarrow> (exn \<Rightarrow> 'a io) \<Rightarrow> 'a io" where
  "io_try m h =
     (case m of
        (Inl e, evs) \<Rightarrow> (case h e of (r, evs') \<Rightarrow> (r, evs @ evs'))
      | (Inr x, evs) \<Rightarrow> (Inr x, evs))"

text \<open>Sequencing of computations without effects.\<close>

definition exn_bind :: "exn + 'a \<Rightarrow> ('a \<Rightarrow> exn + 'b) \<Rightarrow> exn + 'b" where
  "exn_bind r f = (case r of Inl e \<Rightarrow> Inl e | Inr x \<Rightarrow> f x)"

section \<open>The providers\<close>

text \<open>
  A caption track of the transcript library: its language code, whether it was generated
  automatically, and what \<open>fetch()\<close> answers. The type \<open>'f\<close> is that of the fetched caption
  segments, which only the library's formatter reads.
\<close>

record 'f transcript =
  language_code :: string
  is_generated :: bool
  fetch :: "exn + 'f"

text \<open>What a \<open>for\<close> loop sees of an iterable: the items in turn, then the end or an exception.\<close>

datatype 'a iteration = Stop | Yield 'a "'a iteration" | Raise exn

text \<open>
  The object that \<open>list_transcripts\<close> returns, as far as the program uses it: the two
  lookups by language and the enumeration of the tracks.
\<close>

record 'f transcript_list =
  find_manually_created_transcript :: "string list \<Rightarrow> exn + 'f transcript"
  find_generated_transcript :: "string list \<Rightarrow> exn + 'f transcript"
  iter :: "'f transcript iteration"

text \<open>
  The object that pytube's \<open>YouTube(url)\<close> returns. Its properties are computed on access
  and each may raise. \<open>publish_date\<close> is \<open>None\<close> or a date, given here by the text that
  \<open>strftime('%Y%m%d')\<close> makes of it.
\<close>

record pytube_video =
  yt_title :: "exn + pyval"
  yt_description :: "exn + pyval"
  yt_length :: "exn + pyval"
  yt_views :: "exn + pyval"
  yt_author :: "exn + pyval"
  yt_publish_date :: "exn + string option"
  yt_video_id :: "exn + pyval"
  yt_thumbnail_url :: "exn + pyval"

text \<open>
  The names that the guarded imports of processor.py and utils.py bind: each is the
  library, or \<open>None\<close> when the import failed.
  \<^item> \<open>yt_dlp\<close>: what \<open>YoutubeDL(ydl_opts).extract_info(url, download=False)\<close> answers;
  \<^item> \<open>YouTube\<close>: pytube's constructor;
  \<^item> \<open>YouTubeTranscriptApi\<close>: what \<open>list_transcripts(video_id)\<close> answers;
  \<^item> \<open>TextFormatter\<close>: what \<open>TextFormatter().format_transcript(fetched)\<close> answers;
  \<^item> \<open>tiktoken\<close>: what \<open>len(get_encoding("cl100k_base").encode(text))\<close> answers.
\<close>

record 'f environment =
  yt_dlp :: "(string \<Rightarrow> exn + pydict) option"
  YouTube :: "(string \<Rightarrow> exn + pytube_video) option"
  YouTubeTranscriptApi :: "(string \<Rightarrow> exn + 'f transcript_list) option"
  TextFormatter :: "('f \<Rightarrow> exn + string) option"
  tiktoken :: "(string \<Rightarrow> exn + int) option"

text \<open>
  Modelled from the spec: the caption library's own track list, which is not part of this
  repository. The tracks are held in the order of enumeration; the lookup of a
  manually-created track succeeds with the first track that was not generated and whose
  language is among those asked for, the lookup of a generated track likewise among the
  generated ones, and each raises when there is no such track.
\<close>

definition find_track :: "bool \<Rightarrow> 'f transcript list \<Rightarrow> string list \<Rightarrow> exn + 'f transcript" where
  "find_track generated tracks langs =
     (case find (\<lambda>t. is_generated t = generated \<and> language_code t \<in> set langs) tracks of
        None \<Rightarrow> Inl (Exception ''NoTranscriptFound'')
      | Some t \<Rightarrow> Inr t)"

fun iterate :: "'a list \<Rightarrow> 'a iteration" where
  "iterate [] = Stop"
| "iterate (x # xs) = Yield x (iterate xs)"

definition TranscriptList :: "'f transcript list \<Rightarrow> 'f transcript_list" where
  "TranscriptList tracks =
     \<lparr>find_manually_created_transcript = find_track False tracks,
      find_generated_transcript = find_track True tracks,
      iter = iterate tracks\<rparr>"

section \<open>utils.py, continued\<close>

text \<open>
  \<open>estimate_tokens(text)\<close>, lines 23 to 33: the tokenizer's count when the library is
  there and does not raise, else a quarter of the length.
\<close>

definition estimate_tokens :: "'f environment \<Rightarrow> string \<Rightarrow> int" where
  "estimate_tokens env text =
     (case tiktoken env of
        Some count \<Rightarrow> (case count text of Inr n \<Rightarrow> n | Inl e \<Rightarrow> int (length text) div 4)
      | None \<Rightarrow> int (length text) div 4)"

section \<open>processor.py\<close>

text \<open>
  \<open>YouTubeProcessor\<close>: its one attribute is the formatter, \<open>TextFormatter()\<close> when the
  library was imported and \<open>None\<close> otherwise (lines 34 to 36).
\<close>

record 'f YouTubeProcessor =
  text_formatter :: "('f \<Rightarrow> exn + string) option"

definition YouTubeProcessor_init :: "'f environment \<Rightarrow> 'f YouTubeProcessor" where
  "YouTubeProcessor_init env = \<lparr>text_formatter = TextFormatter env\<rparr>"

text \<open>\<open>_get_video_info_yt_dlp\<close>, lines 90 to 114.\<close>

definition get_video_info_yt_dlp ::
  "(string \<Rightarrow> exn + pydict) \<Rightarrow> string \<Rightarrow> string \<Rightarrow> pydict io" where
  "get_video_info_yt_dlp ydl vid u =
     io_bind (io_call (YtDlpExtractInfo u) (ydl u)) (\<lambda>info.
       io_return
         [''title'' \<mapsto> dict_get info ''title'' (PyStr ''Unknown Title''),
          ''description'' \<mapsto> dict_get info ''description'' (PyStr []),
          ''duration'' \<mapsto> dict_get info ''duration'' (PyInt 0),
          ''view_count'' \<mapsto> dict_get info ''view_count'' PyNone,
          ''channel'' \<mapsto> dict_get info ''uploader'' (PyStr ''Unknown Channel''),
          ''upload_date'' \<mapsto> dict_get info ''upload_date'' PyNone,
          ''url'' \<mapsto> PyStr u,
          ''video_id'' \<mapsto> PyStr vid,
          ''thumbnail_url'' \<mapsto> dict_get info ''thumbnail'' PyNone])"

text \<open>
  \<open>_get_video_info_pytube\<close>, lines 116 to 133: the properties are read in the order of
  the dictionary display, and the first that raises ends the closure.
\<close>

definition get_video_info_pytube ::
  "(string \<Rightarrow> exn + pytube_video) \<Rightarrow> string \<Rightarrow> pydict io" where
  "get_video_info_pytube ctor u =
     io_bind (io_call (PytubeYouTube u) (ctor u)) (\<lambda>yt.
       io_lift
         (exn_bind (yt_title yt) (\<lambda>title.
          exn_bind (yt_description yt) (\<lambda>description.
          exn_bind (yt_length yt) (\<lambda>len.
          exn_bind (yt_views yt) (\<lambda>views.
          exn_bind (yt_author yt) (\<lambda>author.
          exn_bind (yt_publish_date yt) (\<lambda>publish_date.
          exn_bind (yt_video_id yt) (\<lambda>video_id.
          exn_bind (yt_thumbnail_url yt) (\<lambda>thumbnail_url.
            Inr [''title'' \<mapsto> title,
                 ''description'' \<mapsto> description,
                 ''duration'' \<mapsto> len,
                 ''view_count'' \<mapsto> views,
                 ''channel'' \<mapsto> author,
                 ''upload_date'' \<mapsto> (case publish_date of Some d \<Rightarrow> PyStr d | None \<Rightarrow> PyNone),
                 ''url'' \<mapsto> PyStr u,
                 ''video_id'' \<mapsto> video_id,
                 ''thumbnail_url'' \<mapsto> thumbnail_url]))))))))))"

text \<open>The dictionary of the minimal fallback, lines 78 to 88.\<close>

definition minimal_info :: "string \<Rightarrow> string \<Rightarrow> pydict" where
  "minimal_info vid u =
     [''title'' \<mapsto> PyStr (''Video '' @ vid),
      ''description'' \<mapsto> PyStr ''Description not available'',
      ''duration'' \<mapsto> PyInt 0,
      ''view_count'' \<mapsto> PyNone,
      ''channel'' \<mapsto> PyStr ''Unknown Channel'',
      ''upload_date'' \<mapsto> PyNone,
      ''url'' \<mapsto> PyStr u,
      ''video_id'' \<mapsto> PyStr vid,
      ''thumbnail_url'' \<mapsto> PyStr (''https://img.youtube.com/vi/'' @ vid @ ''/maxresdefault.jpg'')]"

text \<open>
  One tier of \<open>_get_video_info\<close>: \<open>if lib: try: return ...  except Exception as e:
  print(...)\<close>. The result is the dictionary that the tier returned, or \<open>None\<close> when the
  method goes on to what follows.
\<close>

definition tier :: "'p option \<Rightarrow> ('p \<Rightarrow> pydict io) \<Rightarrow> string \<Rightarrow> pydict option io" where
  "tier lib attempt name =
     (case lib of
        None \<Rightarrow> io_return None
      | Some l \<Rightarrow>
          io_try (io_bind (attempt l) (\<lambda>info. io_return (Some info)))
            (\<lambda>e. io_bind (io_print (name @ '' failed: '' @ str_exn e)) (\<lambda>_. io_return None)))"

text \<open>\<open>_get_video_info\<close>, lines 61 to 88.\<close>

definition get_video_info :: "'f environment \<Rightarrow> string \<Rightarrow> string \<Rightarrow> pydict io" where
  "get_video_info env vid u =
     io_bind (tier (yt_dlp env) (\<lambda>ydl. get_video_info_yt_dlp ydl vid u) ''yt-dlp'') (\<lambda>r1.
       case r1 of
         Some info \<Rightarrow> io_return info
       | None \<Rightarrow>
           io_bind (tier (YouTube env) (\<lambda>ctor. get_video_info_pytube ctor u) ''pytube'') (\<lambda>r2.
             case r2 of
               Some info \<Rightarrow> io_return info
             | None \<Rightarrow> io_return (minimal_info vid u)))"

text \<open>
  The two loops over the track list, lines 161 to 170: the first track that is not
  generated, and the first track.
\<close>

fun first_manual :: "'f transcript iteration \<Rightarrow> exn + 'f transcript option" where
  "first_manual Stop = Inr None"
| "first_manual (Raise e) = Inl e"
| "first_manual (Yield t rest) = (if \<not> is_generated t then Inr (Some t) else first_manual rest)"

fun first_any :: "'f transcript iteration \<Rightarrow> exn + 'f transcript option" where
  "first_any Stop = Inr None"
| "first_any (Raise e) = Inl e"
| "first_any (Yield t rest) = Inr (Some t)"

text \<open>
  The choice of the track, lines 150 to 170, with the two bare \<open>except:\<close> clauses: the
  chosen track, or \<open>None\<close>, and the detected language.
\<close>

definition select_transcript ::
  "'f transcript_list \<Rightarrow> string \<Rightarrow> exn + ('f transcript option \<times> string)" where
  "select_transcript transcript_list lang =
     (case find_manually_created_transcript transcript_list [lang] of
        Inr t \<Rightarrow> Inr (Some t, lang)
      | Inl e1 \<Rightarrow>
          (case find_generated_transcript transcript_list [lang] of
             Inr t \<Rightarrow> Inr (Some t, lang)
           | Inl e2 \<Rightarrow>
               exn_bind (first_manual (iter transcript_list)) (\<lambda>m.
                 case m of
                   Some t \<Rightarrow> Inr (Some t, language_code t)
                 | None \<Rightarrow>
                     exn_bind (first_any (iter transcript_list)) (\<lambda>a.
                       case a of
                         Some t \<Rightarrow> Inr (Some t, language_code t)
                       | None \<Rightarrow> Inr (None, lang)))))"

text \<open>The trimming of the formatted text, lines 179 to 181.\<close>

definition trim_transcript :: "string \<Rightarrow> int \<Rightarrow> string" where
  "trim_transcript formatted_text max_length =
     (if max_length \<noteq> 0 \<and> int (length formatted_text) > max_length
      then slice_to formatted_text max_length @ ''\<newline>[Transcript truncated...]''
      else formatted_text)"

text \<open>The closure \<open>extract_transcript\<close>, lines 145 to 187.\<close>

definition extract_transcript ::
  "(string \<Rightarrow> exn + 'f transcript_list) \<Rightarrow> ('f \<Rightarrow> exn + string) \<Rightarrow> string \<Rightarrow> string \<Rightarrow> int
     \<Rightarrow> (string option \<times> string option) io" where
  "extract_transcript api formatter vid lang max_length =
     io_try
       (io_bind (io_call (ListTranscripts vid) (api vid)) (\<lambda>transcript_list.
        io_bind (io_lift (select_transcript transcript_list lang)) (\<lambda>(chosen, detected_language).
          case chosen of
            None \<Rightarrow> io_return (None, None)
          | Some t \<Rightarrow>
              io_bind (io_call (TranscriptFetch (language_code t)) (fetch t)) (\<lambda>fetched_transcript.
              io_bind (io_lift (formatter fetched_transcript)) (\<lambda>formatted_text.
                io_return (Some (trim_transcript formatted_text max_length),
                           Some detected_language))))))
       (\<lambda>e. io_bind (io_print (''Transcript extraction failed: '' @ str_exn e))
               (\<lambda>_. io_return (None, None)))"

text \<open>\<open>_get_transcript\<close>, lines 135 to 190.\<close>

definition get_transcript ::
  "'f environment \<Rightarrow> 'f YouTubeProcessor \<Rightarrow> string \<Rightarrow> string \<Rightarrow> int
     \<Rightarrow> (string option \<times> string option) io" where
  "get_transcript env self vid lang max_length =
     (case (YouTubeTranscriptApi env, text_formatter self) of
        (Some api, Some formatter) \<Rightarrow> extract_transcript api formatter vid lang max_length
      | _ \<Rightarrow> io_return (None, None))"

text \<open>
  \<open>YouTubeProcessor.process_video\<close>, lines 38 to 59. The third component of the result,
  always \<open>None\<close>, is left out.
\<close>

definition YouTubeProcessor_process_video ::
  "'f environment \<Rightarrow> 'f YouTubeProcessor \<Rightarrow> VideoQuery \<Rightarrow> (pydict \<times> string option) io" where
  "YouTubeProcessor_process_video env self query =
     io_bind (io_lift (extract_video_id query)) (\<lambda>vid.
     io_bind (get_video_info env vid (url query)) (\<lambda>video_info.
     io_bind (get_transcript env self vid (language query) (max_transcript_length query))
       (\<lambda>(transcript, detected_language).
          io_return
            (case detected_language of
               None \<Rightarrow> video_info
             | Some l \<Rightarrow>
                 if l \<noteq> [] then video_info(''detected_transcript_language'' \<mapsto> PyStr l)
                 else video_info,
             transcript))))"

section \<open>main.py\<close>

text \<open>
  \<open>format_duration\<close> on a value of the dictionary: the arithmetic raises on anything
  but a number.
\<close>

fun format_duration_of :: "pyval \<Rightarrow> exn + string" where
  "format_duration_of (PyInt i) = Inr (format_duration i)"
| "format_duration_of v = Inl (TypeError ''unsupported operand type(s) for //'')"

text \<open>The field \<open>{video_info['view_count']:,}\<close>: the comma is no format of a string.\<close>

fun format_comma_of :: "pyval \<Rightarrow> exn + string" where
  "format_comma_of (PyInt i) = Inr (format_comma i)"
| "format_comma_of (PyStr s) = Inl (ValueError ''Cannot specify , with s.'')"
| "format_comma_of PyNone = Inl (TypeError ''unsupported format string passed to NoneType.__format__'')"

text \<open>
  The metadata section of \<open>format_output\<close>, lines 120 to 132: the entries appended to
  \<open>output\<close>, in order.
\<close>

definition metadata_section :: "pydict \<Rightarrow> exn + string list" where
  "metadata_section video_info =
     exn_bind (format_duration_of (dict_get video_info ''duration'' (PyInt 0))) (\<lambda>duration.
     exn_bind (if truthy (dict_get video_info ''view_count'' PyNone)
               then exn_bind (format_comma_of (dict_get video_info ''view_count'' PyNone))
                      (\<lambda>views. Inr [''- **Views**: '' @ views])
               else Inr []) (\<lambda>views_lines.
       Inr ([''### Metadata\<newline>'',
             ''- **Video ID**: '' @ py_str (dict_get video_info ''video_id'' (PyStr ''N/A'')),
             ''- **Channel**: '' @ py_str (dict_get video_info ''channel'' (PyStr ''N/A'')),
             ''- **Duration**: '' @ duration]
            @ views_lines
            @ (if truthy (dict_get video_info ''upload_date'' PyNone)
               then [''- **Upload Date**: '' @ py_str (dict_get video_info ''upload_date'' PyNone)]
               else [])
            @ [''- **URL**: '' @ py_str (dict_get video_info ''url'' (PyStr ''N/A'')) @ ''\<newline>''])))"

text \<open>The description section, lines 134 to 138.\<close>

definition description_section :: "pydict \<Rightarrow> pyval list" where
  "description_section video_info =
     (if truthy (dict_get video_info ''description'' PyNone)
      then [PyStr ''### Description\<newline>'',
            dict_get video_info ''description'' PyNone,
            PyStr ''\<newline>'']
      else [])"

text \<open>The transcript section, lines 140 to 148.\<close>

definition transcript_section :: "pydict \<Rightarrow> string option \<Rightarrow> pyval list" where
  "transcript_section video_info transcript =
     (case transcript of
        Some t \<Rightarrow>
          if t \<noteq> [] then
            [PyStr ''### Transcript\<newline>'']
            @ (if truthy (dict_get video_info ''detected_transcript_language'' PyNone)
               then [PyStr (''*Language: ''
                       @ py_str (dict_get video_info ''detected_transcript_language'' PyNone)
                       @ ''*\<newline>'')]
               else [])
            @ [PyStr t]
          else [PyStr ''### Transcript\<newline>'',
                PyStr ''*Transcript not available for this video.*\<newline>'']
      | None \<Rightarrow>
          [PyStr ''### Transcript\<newline>'',
           PyStr ''*Transcript not available for this video.*\<newline>''])"

text \<open>\<open>format_output\<close>, lines 114 to 150.\<close>

definition format_output :: "pydict \<Rightarrow> string option \<Rightarrow> exn + string" where
  "format_output video_info transcript =
     exn_bind (metadata_section video_info) (\<lambda>metadata.
       py_join ''\<newline>''
         ([PyStr ''# YouTube Video Documentation\<newline>'',
           PyStr (''## '' @ py_str (dict_get video_info ''title'' (PyStr ''Unknown Title''))
                  @ ''\<newline>'')]
          @ map PyStr metadata
          @ description_section video_info
          @ transcript_section video_info transcript))"

text \<open>
  What the handler answers: the result page with its context (the record, the document,
  the token count, whether a transcript was found), or the index page with an error text
  and a status code.
\<close>

datatype response =
    ResultPage pydict string int bool
  | IndexPage string nat

text \<open>
  The handler \<open>process_video\<close> of main.py, lines 56 to 105, after the form fields have
  been parsed; the rate limit is not part of it.
\<close>

definition main_process_video ::
  "'f environment \<Rightarrow> 'f YouTubeProcessor \<Rightarrow> string \<Rightarrow> int \<Rightarrow> string \<Rightarrow> response \<times> event list" where
  "main_process_video env processor u n lang =
     (case io_bind (io_lift (VideoQuery_init u n False lang)) (\<lambda>query.
           io_bind (YouTubeProcessor_process_video env processor query) (\<lambda>(video_info, transcript).
           io_bind (io_lift (format_output video_info transcript)) (\<lambda>output.
             io_return
               (ResultPage video_info output (estimate_tokens env output)
                  (transcript \<noteq> None))))) of
        (Inr page, evs) \<Rightarrow> (page, evs)
      | (Inl e, evs) \<Rightarrow>
          (if is_ValueError e then IndexPage (str_exn e) 400
           else IndexPage (''Error processing video: '' @ str_exn e) 500,
           evs))"

section \<open>Notions used by the properties\<close>

text \<open>A URL has one of the three shapes when \<open>re.match\<close> accepts it for one of the patterns.\<close>

definition matches_recognized_shape :: "string \<Rightarrow> bool" where
  "matches_recognized_shape u = list_ex (\<lambda>p. re_match p u \<noteq> None) youtube_patterns"

text \<open>
  A tier of the metadata chain is unavailable (its library is \<open>None\<close>) or throws (its
  attempt ends in an exception).
\<close>

definition tier_fails :: "'p option \<Rightarrow> ('p \<Rightarrow> pydict io) \<Rightarrow> bool" where
  "tier_fails lib attempt = (case lib of None \<Rightarrow> True | Some l \<Rightarrow> isl (fst (attempt l)))"


text \<open>A key of the record is present: it is there and its value is not \<open>None\<close>.\<close>

definition present :: "pydict \<Rightarrow> string \<Rightarrow> bool" where
  "present d k = (case d k of None \<Rightarrow> False | Some PyNone \<Rightarrow> False | Some v \<Rightarrow> True)"

text \<open>The metadata block is rendered and one of its entries starts with the label.\<close>

definition has_line :: "string \<Rightarrow> pydict \<Rightarrow> bool" where
  "has_line label video_info =
     (case metadata_section video_info of
        Inl e \<Rightarrow> False
      | Inr ls \<Rightarrow> list_ex (\<lambda>l. take (length label) l = label) ls)"

section \<open>Sample providers\<close>

text \<open>Concrete tracks and environments, on which the properties are instantiated.\<close>

definition track :: "string \<Rightarrow> bool \<Rightarrow> exn + string \<Rightarrow> string transcript" where
  "track code generated answer = \<lparr>language_code = code, is_generated = generated, fetch = answer\<rparr>"

definition transcript_environment ::
  "(string \<Rightarrow> exn + string transcript_list) option \<Rightarrow> (string \<Rightarrow> exn + string) option
     \<Rightarrow> string environment" where
  "transcript_environment api formatter =
     \<lparr>yt_dlp = None, YouTube = None, YouTubeTranscriptApi = api, TextFormatter = formatter,
      tiktoken = None\<rparr>"

definition failing_environment :: "unit environment" where
  "failing_environment =
     \<lparr>yt_dlp = Some (\<lambda>u. Inl (Exception ''Unable to download webpage'')),
      YouTube = Some (\<lambda>u. Inr \<lparr>yt_title = Inl (Exception ''RegexMatchError''),
                                yt_description = Inr PyNone, yt_length = Inr (PyInt 0),
                                yt_views = Inr (PyInt 0), yt_author = Inr PyNone,
                                yt_publish_date = Inr None, yt_video_id = Inr PyNone,
                                yt_thumbnail_url = Inr PyNone\<rparr>),
      YouTubeTranscriptApi = None,
      TextFormatter = None,
      tiktoken = None\<rparr>"

definition working_environment :: "string environment" where
  "working_environment =
     \<lparr>yt_dlp = Some (\<lambda>u. Inr [''title'' \<mapsto> PyStr ''Never Gonna Give You Up'',
                              ''duration'' \<mapsto> PyInt 213]),
      YouTube = None,
      YouTubeTranscriptApi =
        Some (\<lambda>v. Inr (TranscriptList [track ''en'' False (Inr ''Never gonna give you up'')])),
      TextFormatter = Some Inr,
      tiktoken = None\<rparr>"

section \<open>Properties of utils.py\<close>

lemma str_nat_digit: "n < 10 \<Longrightarrow> str_nat n = [digit_char n]"
  by (simp add: str_nat.simps)

lemma str_nat_step: "10 \<le> n \<Longrightarrow> str_nat n = str_nat (n div 10) @ [digit_char (n mod 10)]"
  by (subst str_nat.simps) simp

lemma str_nat_not_Nil: "str_nat n \<noteq> []"
  by (subst str_nat.simps) simp

text \<open>
  Claim C8. For every integer number of seconds, \<open>format_duration\<close> takes
  hours = seconds div 3600, minutes = (seconds mod 3600) div 60 and secs = seconds mod 60,
  and renders hours, minutes and seconds when hours is positive, minutes and seconds when
  only minutes is positive, and seconds alone otherwise. In particular 0 gives "0s",
  45 gives "45s", 125 gives "2m 5s", 3600 gives "1h 0m 0s" and 3725 gives "1h 2m 5s".
\<close>

theorem format_duration_rule:
  "format_duration seconds =
     (if seconds div 3600 > 0 then
        str_int (seconds div 3600) @ ''h '' @ str_int ((seconds mod 3600) div 60) @ ''m ''
          @ str_int (seconds mod 60) @ ''s''
      else if (seconds mod 3600) div 60 > 0 then
        str_int ((seconds mod 3600) div 60) @ ''m '' @ str_int (seconds mod 60) @ ''s''
      else str_int (seconds mod 60) @ ''s'')
   \<and> format_duration 0 = ''0s''
   \<and> format_duration 45 = ''45s''
   \<and> format_duration 125 = ''2m 5s''
   \<and> format_duration 3600 = ''1h 0m 0s''
   \<and> format_duration 3725 = ''1h 2m 5s''"
proof -
  have general: "format_duration seconds =
     (if seconds div 3600 > 0 then
        str_int (seconds div 3600) @ ''h '' @ str_int ((seconds mod 3600) div 60) @ ''m ''
          @ str_int (seconds mod 60) @ ''s''
      else if (seconds mod 3600) div 60 > 0 then
        str_int ((seconds mod 3600) div 60) @ ''m '' @ str_int (seconds mod 60) @ ''s''
      else str_int (seconds mod 60) @ ''s'')"
    by (simp add: format_duration_def Let_def)
  have e0: "format_duration 0 = ''0s''"
    by (simp add: format_duration_def str_int_def str_nat.simps digit_char_def)
  have e45: "format_duration 45 = ''45s''"
    by (simp add: format_duration_def str_int_def str_nat.simps digit_char_def)
  have e125: "format_duration 125 = ''2m 5s''"
    by (simp add: format_duration_def str_int_def str_nat.simps digit_char_def)
  have e3600: "format_duration 3600 = ''1h 0m 0s''"
    by (simp add: format_duration_def str_int_def str_nat.simps digit_char_def)
  have e3725: "format_duration 3725 = ''1h 2m 5s''"
    by (simp add: format_duration_def str_int_def str_nat.simps digit_char_def)
  from general e0 e45 e125 e3600 e3725 show ?thesis by blast
qed

section \<open>Properties of the URL patterns\<close>

lemma re_match_search: "re_match p s = Some g \<Longrightarrow> re_search p s = Some g"
  by (cases s) simp_all

lemma re_search_None_match: "re_search p s = None \<Longrightarrow> re_match p s = None"
  by (cases s) (auto split: option.splits)

lemma validate_loop_Inr: "validate_loop ps v = Inr w \<Longrightarrow> w = v \<and> list_ex (\<lambda>p. re_match p v \<noteq> None) ps"
  by (induction ps) (auto split: option.splits)

lemma validate_loop_accepts: "list_ex (\<lambda>p. re_match p v \<noteq> None) ps \<Longrightarrow> validate_loop ps v = Inr v"
  by (induction ps) (auto split: option.splits)

lemma validate_loop_rejects:
  "\<not> list_ex (\<lambda>p. re_match p v \<noteq> None) ps \<Longrightarrow> validate_loop ps v = Inl (ValueError ''Invalid YouTube URL format'')"
  by (induction ps) (auto split: option.splits)

lemma extract_loop_total:
  "list_ex (\<lambda>p. re_match p u \<noteq> None) ps \<Longrightarrow> \<exists>g. extract_loop ps u = Inr g"
  by (induction ps) (auto split: option.splits dest: re_search_None_match)

lemma extract_loop_Inr:
  "extract_loop ps u = Inr g \<Longrightarrow> list_ex (\<lambda>p. re_search p u = Some g) ps"
  by (induction ps) (auto split: option.splits)

lemma re_search_suffix:
  "re_search p s = Some g \<Longrightarrow> \<exists>a t. s = a @ t \<and> re_match p t = Some g"
proof (induction s)
  case Nil
  then show ?case by simp
next
  case (Cons c cs)
  show ?case
  proof (cases "re_match p (c # cs)")
    case None
    with Cons.prems have "re_search p cs = Some g" by simp
    then obtain a t where "cs = a @ t" "re_match p t = Some g" using Cons.IH by blast
    then have "c # cs = (c # a) @ t \<and> re_match p t = Some g" by simp
    then show ?thesis by blast
  next
    case (Some g')
    with Cons.prems have "g' = g" by simp
    with Some have "c # cs = [] @ (c # cs) \<and> re_match p (c # cs) = Some g" by simp
    then show ?thesis by blast
  qed
qed

lemma run_suffix: "r' \<in> set (run r s) \<Longrightarrow> \<exists>a. s = a @ r'"
proof (induction r arbitrary: s r')
  case (Lit l)
  then have "r' = drop (length l) s" by (auto split: if_splits)
  then have "s = take (length l) s @ r'" by simp
  then show ?case by blast
next
  case (ClassN P n)
  then have "r' = drop n s" by (auto split: if_splits)
  then have "s = take n s @ r'" by simp
  then show ?case by blast
next
  case (Opt r)
  then show ?case by auto
next
  case (Seq a b)
  from Seq.prems obtain m where m: "m \<in> set (run a s)" "r' \<in> set (run b m)" by auto
  from Seq.IH(1)[OF m(1)] obtain x where "s = x @ m" by blast
  moreover from Seq.IH(2)[OF m(2)] obtain y where "m = y @ r'" by blast
  ultimately have "s = (x @ y) @ r'" by simp
  then show ?case by blast
qed

lemma match_at_class:
  assumes "grp p = ClassN P n" "g \<in> set (match_at p s)"
  shows "length g = n \<and> list_all P g \<and> (\<exists>a b. s = a @ g @ b)"
proof -
  from assms obtain m where m: "m \<in> set (run (pre p) s)" "n \<le> length m" "list_all P (take n m)"
    and g: "g = take (length m - length (drop n m)) m"
    by (auto simp: match_at_def split: if_splits)
  from m(2) g have g': "g = take n m" by simp
  from run_suffix[OF m(1)] obtain a where "s = a @ m" by blast
  then have "s = a @ g @ drop n m" using g' by simp
  then have "\<exists>a b. s = a @ g @ b" by blast
  moreover have "length g = n" using g' m(2) by simp
  moreover have "list_all P g" using g' m(3) by simp
  ultimately show ?thesis by blast
qed

lemma re_match_class:
  assumes "grp p = ClassN P n" "re_match p s = Some g"
  shows "length g = n \<and> list_all P g \<and> (\<exists>a b. s = a @ g @ b)"
proof -
  from assms(2) have "g \<in> set (match_at p s)"
    by (auto simp: re_match_def split: list.splits)
  with assms(1) show ?thesis by (rule match_at_class)
qed

lemma re_search_class:
  assumes "grp p = ClassN P n" "re_search p s = Some g"
  shows "length g = n \<and> list_all P g \<and> (\<exists>a b. s = a @ g @ b)"
proof -
  from re_search_suffix[OF assms(2)] obtain a t where t: "s = a @ t" "re_match p t = Some g" by blast
  from re_match_class[OF assms(1) t(2)] obtain x y where
    "length g = n" "list_all P g" "t = x @ g @ y" by blast
  with t(1) have "length g = n \<and> list_all P g \<and> s = (a @ x) @ g @ y" by simp
  then show ?thesis by blast
qed

lemma youtube_patterns_grp: "list_all (\<lambda>p. grp p = ClassN id_char 11) youtube_patterns"
  by (simp add: youtube_patterns_def)

lemma validate_youtube_url_iff:
  "validate_youtube_url u = (if matches_recognized_shape u then Inr u
                             else Inl (ValueError ''Invalid YouTube URL format''))"
  by (simp add: validate_youtube_url_def matches_recognized_shape_def validate_loop_accepts
      validate_loop_rejects)

lemma VideoQuery_init_cases:
  "VideoQuery_init u n ic lang =
     (if matches_recognized_shape u \<and> 100 \<le> n then
        Inr \<lparr>url = u, max_transcript_length = n, include_comments = ic, language = lang\<rparr>
      else
        Inl (ValidationError
               ((if matches_recognized_shape u then []
                 else [(''url'', ''Invalid YouTube URL format'')])
                @ (if 100 \<le> n then []
                   else [(''max_transcript_length'',
                          ''Transcript length must be at least 100 characters'')]))))"
  by (simp add: VideoQuery_init_def validate_youtube_url_iff validate_transcript_length_def
      field_errors_def)

text \<open>
  A URL that the validator accepts is always resolved: the error branch of
  \<open>extract_video_id\<close> is not taken, and the result is a run of eleven characters of the
  class that occurs in the URL.
\<close>

lemma extract_video_id_validated:
  assumes "validate_youtube_url (url q) = Inr v"
  shows "\<exists>g. extract_video_id q = Inr g \<and> length g = 11 \<and> list_all id_char g
           \<and> (\<exists>a b. url q = a @ g @ b)"
proof -
  from assms have "list_ex (\<lambda>p. re_match p (url q) \<noteq> None) youtube_patterns"
    unfolding validate_youtube_url_def by (auto dest: validate_loop_Inr)
  then obtain g where g: "extract_loop youtube_patterns (url q) = Inr g"
    using extract_loop_total by blast
  then have "list_ex (\<lambda>p. re_search p (url q) = Some g) youtube_patterns"
    by (rule extract_loop_Inr)
  then obtain p where p: "p \<in> set youtube_patterns" "re_search p (url q) = Some g"
    by (auto simp: list_ex_iff)
  from p(1) youtube_patterns_grp have "grp p = ClassN id_char 11"
    by (auto simp: list_all_iff)
  from re_search_class[OF this p(2)] g show ?thesis
    by (simp add: extract_video_id_def)
qed

text \<open>For a URL of the watch-page shape the result is the token that the validator matched.\<close>

lemma extract_video_id_watch_shape:
  assumes "re_match (hd youtube_patterns) (url q) = Some g"
  shows "extract_video_id q = Inr g"
  using re_match_search[OF assms]
  by (simp add: extract_video_id_def youtube_patterns_def)

text \<open>When no pattern occurs anywhere in the URL, both functions raise \<open>ValueError\<close>.\<close>

lemma both_reject:
  assumes "\<not> list_ex (\<lambda>p. re_search p (url q) \<noteq> None) youtube_patterns"
  shows "validate_youtube_url (url q) = Inl (ValueError ''Invalid YouTube URL format'')
         \<and> extract_video_id q = Inl (ValueError ''Could not extract video ID from URL'')"
proof -
  have e: "\<not> list_ex (\<lambda>p. re_search p u \<noteq> None) ps
        \<Longrightarrow> extract_loop ps u = Inl (ValueError ''Could not extract video ID from URL'')" for ps u
    by (induction ps) (auto split: option.splits)
  have v: "\<not> list_ex (\<lambda>p. re_search p u \<noteq> None) ps
        \<Longrightarrow> validate_loop ps u = Inl (ValueError ''Invalid YouTube URL format'')" for ps u
    by (induction ps) (auto split: option.splits dest: re_search_None_match)
  from assms e v show ?thesis
    by (simp add: validate_youtube_url_def extract_video_id_def)
qed

text \<open>
  Claim C4. A URL that the validator accepts is resolved to the eleven-character token
  embedded in it. The code does resolve every accepted URL, but not always to that token:
  the validator matches at the start of the URL and the resolver searches the whole URL,
  pattern by pattern. The short link below is accepted by the second pattern with the token
  \<open>AAAAAAAAAAA\<close>, and the resolver answers \<open>BBBBBBBBBBB\<close>, which the first pattern finds
  further to the right.
\<close>

theorem extract_video_id_takes_later_watch_text:
  "validate_youtube_url ''https://youtu.be/AAAAAAAAAAA?feature=youtube.com/watch?v=BBBBBBBBBBB''
     = Inr ''https://youtu.be/AAAAAAAAAAA?feature=youtube.com/watch?v=BBBBBBBBBBB''
   \<and> map (\<lambda>p. re_match p ''https://youtu.be/AAAAAAAAAAA?feature=youtube.com/watch?v=BBBBBBBBBBB'')
        youtube_patterns = [None, Some ''AAAAAAAAAAA'', None]
   \<and> VideoQuery_init ''https://youtu.be/AAAAAAAAAAA?feature=youtube.com/watch?v=BBBBBBBBBBB''
        10000 False ''en''
       = Inr \<lparr>url = ''https://youtu.be/AAAAAAAAAAA?feature=youtube.com/watch?v=BBBBBBBBBBB'',
              max_transcript_length = 10000, include_comments = False, language = ''en''\<rparr>
   \<and> extract_video_id
        \<lparr>url = ''https://youtu.be/AAAAAAAAAAA?feature=youtube.com/watch?v=BBBBBBBBBBB'',
         max_transcript_length = 10000, include_comments = False, language = ''en''\<rparr>
       = Inr ''BBBBBBBBBBB''"
  by (simp add: validate_youtube_url_def VideoQuery_init_def validate_transcript_length_def
      extract_video_id_def youtube_patterns_def opt_scheme_def opt_www_def
      re_match_def match_at_def id_char_def)

text \<open>
  Claim C5. The construction of a \<open>VideoQuery\<close> succeeds exactly when the URL has one of
  the recognized shapes and the transcript length is at least 100. Otherwise it fails with
  a \<open>ValidationError\<close> that lists, for each check that failed, the field and the message of
  its validator; the handler then answers with the index page and status 400, and no
  provider has been called and nothing printed.
\<close>

theorem VideoQuery_validation:
  "(\<exists>query. VideoQuery_init u n ic lang = Inr query) = (matches_recognized_shape u \<and> 100 \<le> n)
   \<and> (\<not> (matches_recognized_shape u \<and> 100 \<le> n) \<longrightarrow>
        (\<exists>errs. VideoQuery_init u n ic lang = Inl (ValidationError errs)
           \<and> errs = (if matches_recognized_shape u then []
                     else [(''url'', ''Invalid YouTube URL format'')])
                    @ (if 100 \<le> n then []
                       else [(''max_transcript_length'',
                              ''Transcript length must be at least 100 characters'')])
           \<and> errs \<noteq> []
           \<and> main_process_video env processor u n lang
               = (IndexPage (str_exn (ValidationError errs)) 400, [])))"
proof (intro conjI impI)
  show "(\<exists>query. VideoQuery_init u n ic lang = Inr query) = (matches_recognized_shape u \<and> 100 \<le> n)"
    by (simp add: VideoQuery_init_cases)
next
  assume bad: "\<not> (matches_recognized_shape u \<and> 100 \<le> n)"
  let ?errs = "(if matches_recognized_shape u then []
                     else [(''url'', ''Invalid YouTube URL format'')])
                    @ (if 100 \<le> n then []
                       else [(''max_transcript_length'',
                              ''Transcript length must be at least 100 characters'')])"
  have init: "\<And>ic. VideoQuery_init u n ic lang = Inl (ValidationError ?errs)"
    using bad by (simp add: VideoQuery_init_cases)
  have ne: "?errs \<noteq> []" using bad by auto
  have page: "main_process_video env processor u n lang
               = (IndexPage (str_exn (ValidationError ?errs)) 400, [])"
    by (simp add: main_process_video_def init io_bind_def io_lift_def del: str_exn.simps)
  from init ne page
  show "\<exists>errs. VideoQuery_init u n ic lang = Inl (ValidationError errs)
           \<and> errs = ?errs \<and> errs \<noteq> []
           \<and> main_process_video env processor u n lang
               = (IndexPage (str_exn (ValidationError errs)) 400, [])"
    by blast
qed

theorem VideoQuery_validation_witness:
  "\<not> (matches_recognized_shape ''https://www.youtube.com/watch?v=dQw4w9WgXcQ'' \<and> (100::int) \<le> 50)
   \<and> VideoQuery_init ''https://www.youtube.com/watch?v=dQw4w9WgXcQ'' 50 False ''en''
       = Inl (ValidationError [(''max_transcript_length'',
                                ''Transcript length must be at least 100 characters'')])
   \<and> snd (main_process_video working_environment (YouTubeProcessor_init working_environment)
            ''https://www.youtube.com/watch?v=dQw4w9WgXcQ'' 50 ''en'') = []
   \<and> (\<exists>query. VideoQuery_init ''https://www.youtube.com/watch?v=dQw4w9WgXcQ'' 100 False ''en''
                 = Inr query)"
proof -
  have m: "matches_recognized_shape ''https://www.youtube.com/watch?v=dQw4w9WgXcQ''"
    by (simp add: matches_recognized_shape_def youtube_patterns_def opt_scheme_def opt_www_def
        re_match_def match_at_def id_char_def)
  from VideoQuery_validation[of "''https://www.youtube.com/watch?v=dQw4w9WgXcQ''" 50 False "''en''"
      working_environment "YouTubeProcessor_init working_environment"]
    VideoQuery_validation[of "''https://www.youtube.com/watch?v=dQw4w9WgXcQ''" 100 False "''en''"
      working_environment "YouTubeProcessor_init working_environment"] m
  show ?thesis by auto
qed


section \<open>Properties of the metadata fetcher\<close>

lemmas io_defs = io_bind_def io_try_def io_return_def io_lift_def io_call_def io_print_def

lemma tier_total: "\<exists>r evs. tier lib attempt name = (Inr r, evs)"
proof (cases lib)
  case None
  then show ?thesis by (simp add: tier_def io_return_def)
next
  case (Some l)
  obtain r evs where a: "attempt l = (r, evs)" by (cases "attempt l")
  show ?thesis
    by (cases r) (simp_all add: Some a tier_def io_try_def io_bind_def io_return_def io_print_def)
qed

lemma tier_fails_None: "tier_fails lib attempt \<Longrightarrow> fst (tier lib attempt name) = Inr None"
proof (cases lib)
  case None
  then show ?thesis by (simp add: tier_def io_return_def)
next
  case (Some l)
  assume f: "tier_fails lib attempt"
  obtain r evs where a: "attempt l = (r, evs)" by (cases "attempt l")
  with f Some obtain e where "r = Inl e" by (cases r) (simp_all add: tier_fails_def)
  with a Some show ?thesis
    by (simp add: tier_def io_try_def io_bind_def io_return_def io_print_def)
qed

lemma get_video_info_total: "\<exists>info evs. get_video_info env vid u = (Inr info, evs)"
proof -
  obtain r1 evs1 where t1:
    "tier (yt_dlp env) (\<lambda>ydl. get_video_info_yt_dlp ydl vid u) ''yt-dlp'' = (Inr r1, evs1)"
    using tier_total by blast
  obtain r2 evs2 where t2:
    "tier (YouTube env) (\<lambda>ctor. get_video_info_pytube ctor u) ''pytube'' = (Inr r2, evs2)"
    using tier_total by blast
  show ?thesis
    by (cases r1; cases r2) (simp_all add: get_video_info_def t1 t2 io_bind_def io_return_def)
qed

lemma get_video_info_minimal:
  assumes "tier_fails (yt_dlp env) (\<lambda>ydl. get_video_info_yt_dlp ydl vid u)"
    and "tier_fails (YouTube env) (\<lambda>ctor. get_video_info_pytube ctor u)"
  shows "fst (get_video_info env vid u) = Inr (minimal_info vid u)"
proof -
  obtain x1 evs1 where t1:
    "tier (yt_dlp env) (\<lambda>ydl. get_video_info_yt_dlp ydl vid u) ''yt-dlp'' = (x1, evs1)"
    by (cases "tier (yt_dlp env) (\<lambda>ydl. get_video_info_yt_dlp ydl vid u) ''yt-dlp''")
  obtain x2 evs2 where t2:
    "tier (YouTube env) (\<lambda>ctor. get_video_info_pytube ctor u) ''pytube'' = (x2, evs2)"
    by (cases "tier (YouTube env) (\<lambda>ctor. get_video_info_pytube ctor u) ''pytube''")
  from tier_fails_None[OF assms(1), of "''yt-dlp''"] t1 have x1: "x1 = Inr None" by simp
  from tier_fails_None[OF assms(2), of "''pytube''"] t2 have x2: "x2 = Inr None" by simp
  show ?thesis
    by (simp add: get_video_info_def t1 t2 x1 x2 io_bind_def io_return_def)
qed

text \<open>
  Claim C1. \<open>_get_video_info\<close> never raises: it always returns a record. When the first
  tier and the second tier are each unavailable or throw, the record is the placeholder:
  its title is "Video " followed by the identifier, its channel is "Unknown Channel", its
  duration is 0 and its thumbnail URL is built from the identifier.
\<close>

theorem get_video_info_fallback:
  "(\<exists>info evs. get_video_info env vid u = (Inr info, evs))
   \<and> (tier_fails (yt_dlp env) (\<lambda>ydl. get_video_info_yt_dlp ydl vid u)
        \<and> tier_fails (YouTube env) (\<lambda>ctor. get_video_info_pytube ctor u)
      \<longrightarrow> (\<exists>info. fst (get_video_info env vid u) = Inr info
             \<and> info ''title'' = Some (PyStr (''Video '' @ vid))
             \<and> info ''channel'' = Some (PyStr ''Unknown Channel'')
             \<and> info ''duration'' = Some (PyInt 0)
             \<and> info ''thumbnail_url''
                 = Some (PyStr (''https://img.youtube.com/vi/'' @ vid @ ''/maxresdefault.jpg''))))"
proof (intro conjI impI)
  show "\<exists>info evs. get_video_info env vid u = (Inr info, evs)"
    by (rule get_video_info_total)
next
  assume "tier_fails (yt_dlp env) (\<lambda>ydl. get_video_info_yt_dlp ydl vid u)
        \<and> tier_fails (YouTube env) (\<lambda>ctor. get_video_info_pytube ctor u)"
  then have "fst (get_video_info env vid u) = Inr (minimal_info vid u)"
    using get_video_info_minimal by blast
  moreover have "minimal_info vid u ''title'' = Some (PyStr (''Video '' @ vid))"
    by (simp add: minimal_info_def)
  moreover have "minimal_info vid u ''channel'' = Some (PyStr ''Unknown Channel'')"
    by (simp add: minimal_info_def)
  moreover have "minimal_info vid u ''duration'' = Some (PyInt 0)"
    by (simp add: minimal_info_def)
  moreover have "minimal_info vid u ''thumbnail_url''
                 = Some (PyStr (''https://img.youtube.com/vi/'' @ vid @ ''/maxresdefault.jpg''))"
    by (simp add: minimal_info_def)
  ultimately show "\<exists>info. fst (get_video_info env vid u) = Inr info
             \<and> info ''title'' = Some (PyStr (''Video '' @ vid))
             \<and> info ''channel'' = Some (PyStr ''Unknown Channel'')
             \<and> info ''duration'' = Some (PyInt 0)
             \<and> info ''thumbnail_url''
                 = Some (PyStr (''https://img.youtube.com/vi/'' @ vid @ ''/maxresdefault.jpg''))"
    by blast
qed

theorem get_video_info_fallback_witness:
  "tier_fails (yt_dlp failing_environment)
     (\<lambda>ydl. get_video_info_yt_dlp ydl ''dQw4w9WgXcQ'' ''https://youtu.be/dQw4w9WgXcQ'')
   \<and> tier_fails (YouTube failing_environment)
       (\<lambda>ctor. get_video_info_pytube ctor ''https://youtu.be/dQw4w9WgXcQ'')
   \<and> (\<exists>info. fst (get_video_info failing_environment ''dQw4w9WgXcQ'' ''https://youtu.be/dQw4w9WgXcQ'')
               = Inr info
        \<and> info ''title'' = Some (PyStr ''Video dQw4w9WgXcQ'')
        \<and> info ''thumbnail_url''
            = Some (PyStr ''https://img.youtube.com/vi/dQw4w9WgXcQ/maxresdefault.jpg''))"
proof -
  have h1: "tier_fails (yt_dlp failing_environment)
     (\<lambda>ydl. get_video_info_yt_dlp ydl ''dQw4w9WgXcQ'' ''https://youtu.be/dQw4w9WgXcQ'')"
    by (simp add: tier_fails_def failing_environment_def get_video_info_yt_dlp_def
        io_bind_def io_call_def)
  have h2: "tier_fails (YouTube failing_environment)
       (\<lambda>ctor. get_video_info_pytube ctor ''https://youtu.be/dQw4w9WgXcQ'')"
    by (simp add: tier_fails_def failing_environment_def get_video_info_pytube_def
        io_bind_def io_call_def io_lift_def exn_bind_def)
  from get_video_info_fallback[of failing_environment "''dQw4w9WgXcQ''"
      "''https://youtu.be/dQw4w9WgXcQ''"] h1 h2
  show ?thesis by auto
qed

section \<open>Properties of the transcript fetcher\<close>

text \<open>What the closure returns, by the outcome of each step.\<close>

lemma extract_transcript_cases:
  "fst (extract_transcript api formatter vid lang n) =
     (case api vid of
        Inl e \<Rightarrow> Inr (None, None)
      | Inr transcript_list \<Rightarrow>
          (case select_transcript transcript_list lang of
             Inl e \<Rightarrow> Inr (None, None)
           | Inr (None, dl) \<Rightarrow> Inr (None, None)
           | Inr (Some t, dl) \<Rightarrow>
               (case fetch t of
                  Inl e \<Rightarrow> Inr (None, None)
                | Inr fetched \<Rightarrow>
                    (case formatter fetched of
                       Inl e \<Rightarrow> Inr (None, None)
                     | Inr formatted_text \<Rightarrow>
                         Inr (Some (trim_transcript formatted_text n), Some dl)))))"
  by (simp add: extract_transcript_def io_defs split: sum.split option.split prod.split)


lemma trim_transcript_long:
  assumes "100 \<le> n"
  shows "trim_transcript T n =
           (if int (length T) \<le> n then T
            else take (nat n) T @ ''\<newline>[Transcript truncated...]'')"
  using assms by (simp add: trim_transcript_def slice_to_def)

lemma get_transcript_Some:
  assumes "fst (get_transcript env self vid lang n) = Inr (Some text, dl)"
  shows "\<exists>T. text = trim_transcript T n"
  using assms
  by (auto simp: get_transcript_def extract_transcript_cases io_return_def
      split: sum.splits option.splits prod.splits)

lemma track_sel:
  "language_code (track code generated answer) = code"
  "is_generated (track code generated answer) = generated"
  "fetch (track code generated answer) = answer"
  by (simp_all add: track_def)

lemma first_manual_iterate: "first_manual (iterate tracks) = Inr (find (\<lambda>t. \<not> is_generated t) tracks)"
  by (induction tracks) simp_all

lemma first_any_iterate:
  "first_any (iterate tracks) = Inr (case tracks of [] \<Rightarrow> None | t # ts \<Rightarrow> Some t)"
  by (cases tracks) simp_all

lemma find_track_one:
  "find_track generated tracks [lang] =
     (case find (\<lambda>t. is_generated t = generated \<and> language_code t = lang) tracks of
        None \<Rightarrow> Inl (Exception ''NoTranscriptFound'')
      | Some t \<Rightarrow> Inr t)"
  by (simp add: find_track_def)

lemma select_transcript_no_tracks:
  "select_transcript (TranscriptList []) lang = Inr (None, lang)"
  by (simp add: select_transcript_def TranscriptList_def find_track_one exn_bind_def)



text \<open>
  Claim C3. For a maximum length of at least 100 and a formatted text \<open>T\<close> of the chosen
  track, the transcript returned is \<open>T\<close> itself when \<open>T\<close> is no longer than the maximum,
  and otherwise the first \<open>max_length\<close> characters of \<open>T\<close> followed by the marker.
\<close>

theorem get_transcript_truncation:
  assumes "100 \<le> max_length"
    and "YouTubeTranscriptApi env = Some api"
    and "text_formatter self = Some formatter"
    and "api vid = Inr transcript_list"
    and "select_transcript transcript_list lang = Inr (Some t, dl)"
    and "fetch t = Inr fetched"
    and "formatter fetched = Inr T"
  shows "fst (get_transcript env self vid lang max_length) =
           Inr (Some (if int (length T) \<le> max_length then T
                      else take (nat max_length) T @ ''\<newline>[Transcript truncated...]''),
                Some dl)"
  using assms
  by (simp add: get_transcript_def extract_transcript_cases trim_transcript_long)

theorem get_transcript_truncation_witness:
  "fst (get_transcript
          (transcript_environment
             (Some (\<lambda>v. Inr (TranscriptList [track ''en'' False (Inr (replicate 150 CHR ''a''))])))
             (Some Inr))
          \<lparr>text_formatter = Some Inr\<rparr> ''dQw4w9WgXcQ'' ''en'' 100)
     = Inr (Some (replicate 100 CHR ''a'' @ ''\<newline>[Transcript truncated...]''), Some ''en'')
   \<and> fst (get_transcript
          (transcript_environment
             (Some (\<lambda>v. Inr (TranscriptList [track ''en'' False (Inr ''Never gonna give you up'')])))
             (Some Inr))
          \<lparr>text_formatter = Some Inr\<rparr> ''dQw4w9WgXcQ'' ''en'' 100)
     = Inr (Some ''Never gonna give you up'', Some ''en'')"
proof -
  let ?t1 = "track ''en'' False (Inr (replicate 150 CHR ''a''))"
  let ?t2 = "track ''en'' False (Inr ''Never gonna give you up'')"
  let ?api1 = "\<lambda>v::string. Inr (TranscriptList [?t1]) :: exn + string transcript_list"
  let ?api2 = "\<lambda>v::string. Inr (TranscriptList [?t2]) :: exn + string transcript_list"
  let ?self = "\<lparr>text_formatter = Some (Inr :: string \<Rightarrow> exn + string)\<rparr>"
  have s1: "select_transcript (TranscriptList [?t1]) ''en'' = Inr (Some ?t1, ''en'')"
    by (simp add: select_transcript_def TranscriptList_def find_track_def track_def)
  have s2: "select_transcript (TranscriptList [?t2]) ''en'' = Inr (Some ?t2, ''en'')"
    by (simp add: select_transcript_def TranscriptList_def find_track_def track_def)
  have a: "fst (get_transcript (transcript_environment (Some ?api1) (Some Inr)) ?self
                  ''dQw4w9WgXcQ'' ''en'' 100)
     = Inr (Some (replicate 100 CHR ''a'' @ ''\<newline>[Transcript truncated...]''), Some ''en'')"
    using get_transcript_truncation[of 100 "transcript_environment (Some ?api1) (Some Inr)"
        ?api1 ?self Inr "''dQw4w9WgXcQ''" "TranscriptList [?t1]" "''en''" ?t1 "''en''"
        "replicate 150 CHR ''a''" "replicate 150 CHR ''a''"] s1
    by (simp add: transcript_environment_def track_def)
  have b: "fst (get_transcript (transcript_environment (Some ?api2) (Some Inr)) ?self
                  ''dQw4w9WgXcQ'' ''en'' 100)
     = Inr (Some ''Never gonna give you up'', Some ''en'')"
    using get_transcript_truncation[of 100 "transcript_environment (Some ?api2) (Some Inr)"
        ?api2 ?self Inr "''dQw4w9WgXcQ''" "TranscriptList [?t2]" "''en''" ?t2 "''en''"
        "''Never gonna give you up''" "''Never gonna give you up''"] s2
    by (simp add: transcript_environment_def track_def)
  from a b show ?thesis by blast
qed

text \<open>
  Claim C10. For a maximum length of at least 100, a text that \<open>_get_transcript\<close> returns
  is at most 26 characters longer than the maximum: it is no longer than the maximum, or
  exactly \<open>max_length + 26\<close> characters long.
\<close>

theorem get_transcript_length_bound:
  assumes "100 \<le> max_length"
    and "fst (get_transcript env self vid lang max_length) = Inr (Some text, dl)"
  shows "int (length text) \<le> max_length + 26
         \<and> (int (length text) \<le> max_length \<or> int (length text) = max_length + 26)"
proof -
  from get_transcript_Some[OF assms(2)] obtain T where T: "text = trim_transcript T max_length"
    by blast
  show ?thesis
  proof (cases "int (length T) \<le> max_length")
    case True
    then show ?thesis using T assms(1) by (simp add: trim_transcript_long)
  next
    case False
    then have "text = take (nat max_length) T @ ''\<newline>[Transcript truncated...]''"
      using T assms(1) by (simp add: trim_transcript_long)
    moreover have "length (take (nat max_length) T) = nat max_length"
      using False assms(1) by simp
    ultimately have "int (length text) = max_length + 26"
      using assms(1) by simp
    then show ?thesis by simp
  qed
qed

theorem get_transcript_length_bound_witness:
  "(100::int) \<le> 100
   \<and> fst (get_transcript
          (transcript_environment
             (Some (\<lambda>v. Inr (TranscriptList [track ''en'' True (Inr (replicate 101 CHR ''x''))])))
             (Some Inr))
          \<lparr>text_formatter = Some Inr\<rparr> ''dQw4w9WgXcQ'' ''en'' 100)
     = Inr (Some (replicate 100 CHR ''x'' @ ''\<newline>[Transcript truncated...]''), Some ''en'')
   \<and> int (length (replicate 100 CHR ''x'' @ ''\<newline>[Transcript truncated...]'')) \<le> 100 + 26
   \<and> int (length (replicate 100 CHR ''x'' @ ''\<newline>[Transcript truncated...]'')) = 100 + 26"
proof -
  let ?t = "track ''en'' True (Inr (replicate 101 CHR ''x''))"
  let ?api = "\<lambda>v::string. Inr (TranscriptList [?t]) :: exn + string transcript_list"
  let ?self = "\<lparr>text_formatter = Some (Inr :: string \<Rightarrow> exn + string)\<rparr>"
  have s: "select_transcript (TranscriptList [?t]) ''en'' = Inr (Some ?t, ''en'')"
    by (simp add: select_transcript_def TranscriptList_def find_track_def track_def)
  have r: "fst (get_transcript (transcript_environment (Some ?api) (Some Inr)) ?self
                  ''dQw4w9WgXcQ'' ''en'' 100)
     = Inr (Some (replicate 100 CHR ''x'' @ ''\<newline>[Transcript truncated...]''), Some ''en'')"
    by (simp add: get_transcript_def extract_transcript_cases s transcript_environment_def
        trim_transcript_def slice_to_def track_sel)
  from get_transcript_length_bound[OF _ r] r show ?thesis by simp
qed

text \<open>
  Claim C7. On the tracks that the library lists, the choice is, in this order: the
  manually-created track in the requested language; the generated track in the requested
  language; the first manually-created track of any language; the first track enumerated.
  The detected language is the requested one in the first two cases and the language code
  of the chosen track in the last two. When there is no track, \<open>_get_transcript\<close> returns
  \<open>(None, None)\<close>.
\<close>

theorem select_transcript_policy:
  "select_transcript (TranscriptList tracks) lang =
     Inr (case find (\<lambda>t. \<not> is_generated t \<and> language_code t = lang) tracks of
            Some t \<Rightarrow> (Some t, lang)
          | None \<Rightarrow>
             (case find (\<lambda>t. is_generated t \<and> language_code t = lang) tracks of
                Some t \<Rightarrow> (Some t, lang)
              | None \<Rightarrow>
                 (case find (\<lambda>t. \<not> is_generated t) tracks of
                    Some t \<Rightarrow> (Some t, language_code t)
                  | None \<Rightarrow>
                     (case tracks of
                        t # ts \<Rightarrow> (Some t, language_code t)
                      | [] \<Rightarrow> (None, lang)))))
   \<and> (YouTubeTranscriptApi env = Some api \<and> text_formatter self = Some formatter
        \<and> api vid = Inr (TranscriptList [])
      \<longrightarrow> fst (get_transcript env self vid lang n) = Inr (None, None))"
proof (intro conjI impI)
  show "select_transcript (TranscriptList tracks) lang =
     Inr (case find (\<lambda>t. \<not> is_generated t \<and> language_code t = lang) tracks of
            Some t \<Rightarrow> (Some t, lang)
          | None \<Rightarrow>
             (case find (\<lambda>t. is_generated t \<and> language_code t = lang) tracks of
                Some t \<Rightarrow> (Some t, lang)
              | None \<Rightarrow>
                 (case find (\<lambda>t. \<not> is_generated t) tracks of
                    Some t \<Rightarrow> (Some t, language_code t)
                  | None \<Rightarrow>
                     (case tracks of
                        t # ts \<Rightarrow> (Some t, language_code t)
                      | [] \<Rightarrow> (None, lang)))))"
    by (simp add: select_transcript_def TranscriptList_def find_track_one first_manual_iterate
        first_any_iterate exn_bind_def split: option.split list.split)
next
  assume "YouTubeTranscriptApi env = Some api \<and> text_formatter self = Some formatter
        \<and> api vid = Inr (TranscriptList [])"
  then show "fst (get_transcript env self vid lang n) = Inr (None, None)"
    by (simp add: get_transcript_def extract_transcript_cases select_transcript_no_tracks)
qed

theorem select_transcript_policy_witness:
  "YouTubeTranscriptApi (transcript_environment (Some (\<lambda>v. Inr (TranscriptList []))) (Some Inr))
     = Some (\<lambda>v. Inr (TranscriptList []))
   \<and> fst (get_transcript
            (transcript_environment (Some (\<lambda>v. Inr (TranscriptList []))) (Some Inr))
            \<lparr>text_formatter = Some Inr\<rparr> ''dQw4w9WgXcQ'' ''en'' 10000) = Inr (None, None)
   \<and> select_transcript
       (TranscriptList [track ''de'' True (Inr ''a''), track ''fr'' False (Inr ''b''),
                        track ''en'' True (Inr ''c'')]) ''en''
       = Inr (Some (track ''en'' True (Inr ''c'')), ''en'')
   \<and> select_transcript
       (TranscriptList [track ''de'' True (Inr ''a''), track ''fr'' False (Inr ''b'')]) ''en''
       = Inr (Some (track ''fr'' False (Inr ''b'')), ''fr'')
   \<and> select_transcript (TranscriptList [track ''de'' True (Inr ''a'')]) ''en''
       = Inr (Some (track ''de'' True (Inr ''a'')), ''de'')"
proof -
  let ?api = "\<lambda>v::string. Inr (TranscriptList []) :: exn + string transcript_list"
  let ?env = "transcript_environment (Some ?api) (Some Inr)"
  have h: "YouTubeTranscriptApi ?env = Some ?api
             \<and> text_formatter \<lparr>text_formatter = Some Inr\<rparr> = Some (Inr :: string \<Rightarrow> exn + string)
             \<and> ?api ''dQw4w9WgXcQ'' = Inr (TranscriptList [])"
    by (simp add: transcript_environment_def)
  have a: "fst (get_transcript ?env \<lparr>text_formatter = Some Inr\<rparr> ''dQw4w9WgXcQ'' ''en'' 10000)
             = Inr (None, None)"
    using select_transcript_policy[of "[]" "''en''" ?env ?api "\<lparr>text_formatter = Some Inr\<rparr>"
        Inr "''dQw4w9WgXcQ''" 10000] h by blast
  have b: "select_transcript
       (TranscriptList [track ''de'' True (Inr ''a''), track ''fr'' False (Inr ''b''),
                        track ''en'' True (Inr ''c'')]) ''en''
       = Inr (Some (track ''en'' True (Inr ''c'')), ''en'')"
    using select_transcript_policy[of "[track ''de'' True (Inr ''a''), track ''fr'' False (Inr ''b''),
                        track ''en'' True (Inr ''c'')]" "''en''" ?env ?api
        "\<lparr>text_formatter = Some Inr\<rparr>" Inr "''dQw4w9WgXcQ''" 10000]
    by (simp add: track_def)
  have c: "select_transcript
       (TranscriptList [track ''de'' True (Inr ''a''), track ''fr'' False (Inr ''b'')]) ''en''
       = Inr (Some (track ''fr'' False (Inr ''b'')), ''fr'')"
    using select_transcript_policy[of "[track ''de'' True (Inr ''a''), track ''fr'' False (Inr ''b'')]"
        "''en''" ?env ?api "\<lparr>text_formatter = Some Inr\<rparr>" Inr "''dQw4w9WgXcQ''" 10000]
    by (simp add: track_def)
  have d: "select_transcript (TranscriptList [track ''de'' True (Inr ''a'')]) ''en''
       = Inr (Some (track ''de'' True (Inr ''a'')), ''de'')"
    using select_transcript_policy[of "[track ''de'' True (Inr ''a'')]"
        "''en''" ?env ?api "\<lparr>text_formatter = Some Inr\<rparr>" Inr "''dQw4w9WgXcQ''" 10000]
    by (simp add: track_def)
  from h a b c d show ?thesis by blast
qed

section \<open>Properties of the formatter\<close>

lemmas eval_text = str_int_def str_nat.simps digit_char_def format_comma_def group_thousands.simps
  format_duration_def

lemma format_duration_of_Inr: "format_duration_of v = Inr d \<Longrightarrow> \<exists>i. v = PyInt i \<and> d = format_duration i"
  by (cases v) simp_all

lemma format_comma_of_Inr: "format_comma_of v = Inr d \<Longrightarrow> \<exists>i. v = PyInt i \<and> d = format_comma i"
  by (cases v) simp_all

lemma metadata_section_Inr:
  assumes "metadata_section video_info = Inr ls"
  shows "\<exists>i. dict_get video_info ''duration'' (PyInt 0) = PyInt i
     \<and> ls = [''### Metadata\<newline>'',
             ''- **Video ID**: '' @ py_str (dict_get video_info ''video_id'' (PyStr ''N/A'')),
             ''- **Channel**: '' @ py_str (dict_get video_info ''channel'' (PyStr ''N/A'')),
             ''- **Duration**: '' @ format_duration i]
            @ (if truthy (dict_get video_info ''view_count'' PyNone)
               then [''- **Views**: ''
                       @ (case dict_get video_info ''view_count'' PyNone of
                            PyInt c \<Rightarrow> format_comma c | _ \<Rightarrow> [])]
               else [])
            @ (if truthy (dict_get video_info ''upload_date'' PyNone)
               then [''- **Upload Date**: '' @ py_str (dict_get video_info ''upload_date'' PyNone)]
               else [])
            @ [''- **URL**: '' @ py_str (dict_get video_info ''url'' (PyStr ''N/A'')) @ ''\<newline>'']"
proof -
  from assms obtain d where d: "format_duration_of (dict_get video_info ''duration'' (PyInt 0)) = Inr d"
    by (cases "format_duration_of (dict_get video_info ''duration'' (PyInt 0))")
       (simp_all add: metadata_section_def exn_bind_def)
  then obtain i where i: "dict_get video_info ''duration'' (PyInt 0) = PyInt i" "d = format_duration i"
    using format_duration_of_Inr by blast
  show ?thesis
  proof (cases "truthy (dict_get video_info ''view_count'' PyNone)")
    case False
    with assms d i show ?thesis
      by (simp add: metadata_section_def exn_bind_def)
  next
    case True
    with assms d obtain v where v: "format_comma_of (dict_get video_info ''view_count'' PyNone) = Inr v"
      by (cases "format_comma_of (dict_get video_info ''view_count'' PyNone)")
         (simp_all add: metadata_section_def exn_bind_def)
    then obtain c where c: "dict_get video_info ''view_count'' PyNone = PyInt c" "v = format_comma c"
      using format_comma_of_Inr by blast
    with assms d i True v show ?thesis
      by (simp add: metadata_section_def exn_bind_def)
  qed
qed

text \<open>
  Claim C9, as stated, fails where a value is present and counts as false: with a view
  count of 0 and an empty upload date, both present, the block has neither line.
\<close>

theorem views_line_not_shown_for_zero:
  "present ((minimal_info ''dQw4w9WgXcQ'' ''https://youtu.be/dQw4w9WgXcQ'')
              (''view_count'' \<mapsto> PyInt 0, ''upload_date'' \<mapsto> PyStr [])) ''view_count''
   \<and> present ((minimal_info ''dQw4w9WgXcQ'' ''https://youtu.be/dQw4w9WgXcQ'')
              (''view_count'' \<mapsto> PyInt 0, ''upload_date'' \<mapsto> PyStr [])) ''upload_date''
   \<and> metadata_section
       ((minimal_info ''dQw4w9WgXcQ'' ''https://youtu.be/dQw4w9WgXcQ'')
          (''view_count'' \<mapsto> PyInt 0, ''upload_date'' \<mapsto> PyStr []))
       = Inr [''### Metadata\<newline>'',
              ''- **Video ID**: dQw4w9WgXcQ'',
              ''- **Channel**: Unknown Channel'',
              ''- **Duration**: 0s'',
              ''- **URL**: https://youtu.be/dQw4w9WgXcQ\<newline>'']
   \<and> \<not> has_line ''- **Views**: ''
         ((minimal_info ''dQw4w9WgXcQ'' ''https://youtu.be/dQw4w9WgXcQ'')
            (''view_count'' \<mapsto> PyInt 0, ''upload_date'' \<mapsto> PyStr []))
   \<and> \<not> has_line ''- **Upload Date**: ''
         ((minimal_info ''dQw4w9WgXcQ'' ''https://youtu.be/dQw4w9WgXcQ'')
            (''view_count'' \<mapsto> PyInt 0, ''upload_date'' \<mapsto> PyStr []))"
  by (simp add: present_def has_line_def metadata_section_def minimal_info_def dict_get_def
      exn_bind_def eval_text)

text \<open>
  Claim C9, amended. Whenever the metadata block is rendered, it consists of the heading,
  the Video ID, Channel (default "N/A") and Duration lines, then the Views line
  (thousands-grouped) exactly when the view count counts as true (present, not \<open>None\<close> and
  not 0), then the Upload Date line exactly when the upload date counts as true (present,
  not \<open>None\<close> and not empty), then the URL line (default "N/A"), in this order.
\<close>

theorem metadata_section_lines:
  assumes "metadata_section video_info = Inr ls"
  shows "(\<exists>i. dict_get video_info ''duration'' (PyInt 0) = PyInt i
     \<and> ls = [''### Metadata\<newline>'',
             ''- **Video ID**: '' @ py_str (dict_get video_info ''video_id'' (PyStr ''N/A'')),
             ''- **Channel**: '' @ py_str (dict_get video_info ''channel'' (PyStr ''N/A'')),
             ''- **Duration**: '' @ format_duration i]
            @ (if truthy (dict_get video_info ''view_count'' PyNone)
               then [''- **Views**: ''
                       @ (case dict_get video_info ''view_count'' PyNone of
                            PyInt c \<Rightarrow> format_comma c | _ \<Rightarrow> [])]
               else [])
            @ (if truthy (dict_get video_info ''upload_date'' PyNone)
               then [''- **Upload Date**: '' @ py_str (dict_get video_info ''upload_date'' PyNone)]
               else [])
            @ [''- **URL**: '' @ py_str (dict_get video_info ''url'' (PyStr ''N/A'')) @ ''\<newline>''])
   \<and> has_line ''- **Views**: '' video_info = truthy (dict_get video_info ''view_count'' PyNone)
   \<and> has_line ''- **Upload Date**: '' video_info = truthy (dict_get video_info ''upload_date'' PyNone)"
proof -
  from metadata_section_Inr[OF assms] obtain i where
    i: "dict_get video_info ''duration'' (PyInt 0) = PyInt i"
    and ls: "ls = [''### Metadata\<newline>'',
             ''- **Video ID**: '' @ py_str (dict_get video_info ''video_id'' (PyStr ''N/A'')),
             ''- **Channel**: '' @ py_str (dict_get video_info ''channel'' (PyStr ''N/A'')),
             ''- **Duration**: '' @ format_duration i]
            @ (if truthy (dict_get video_info ''view_count'' PyNone)
               then [''- **Views**: ''
                       @ (case dict_get video_info ''view_count'' PyNone of
                            PyInt c \<Rightarrow> format_comma c | _ \<Rightarrow> [])]
               else [])
            @ (if truthy (dict_get video_info ''upload_date'' PyNone)
               then [''- **Upload Date**: '' @ py_str (dict_get video_info ''upload_date'' PyNone)]
               else [])
            @ [''- **URL**: '' @ py_str (dict_get video_info ''url'' (PyStr ''N/A'')) @ ''\<newline>'']"
    by blast
  have v: "has_line ''- **Views**: '' video_info = truthy (dict_get video_info ''view_count'' PyNone)"
    unfolding has_line_def assms ls by simp
  have u: "has_line ''- **Upload Date**: '' video_info
             = truthy (dict_get video_info ''upload_date'' PyNone)"
    unfolding has_line_def assms ls by simp
  from i ls v u show ?thesis by blast
qed

theorem metadata_section_lines_witness:
  "metadata_section
     ((minimal_info ''dQw4w9WgXcQ'' ''https://youtu.be/dQw4w9WgXcQ'')
        (''view_count'' \<mapsto> PyInt 1234567, ''upload_date'' \<mapsto> PyStr ''20091025'',
         ''duration'' \<mapsto> PyInt 213))
     = Inr [''### Metadata\<newline>'',
            ''- **Video ID**: dQw4w9WgXcQ'',
            ''- **Channel**: Unknown Channel'',
            ''- **Duration**: 3m 33s'',
            ''- **Views**: 1,234,567'',
            ''- **Upload Date**: 20091025'',
            ''- **URL**: https://youtu.be/dQw4w9WgXcQ\<newline>'']
   \<and> has_line ''- **Views**: ''
       ((minimal_info ''dQw4w9WgXcQ'' ''https://youtu.be/dQw4w9WgXcQ'')
        (''view_count'' \<mapsto> PyInt 1234567, ''upload_date'' \<mapsto> PyStr ''20091025'',
         ''duration'' \<mapsto> PyInt 213))
   \<and> has_line ''- **Upload Date**: ''
       ((minimal_info ''dQw4w9WgXcQ'' ''https://youtu.be/dQw4w9WgXcQ'')
        (''view_count'' \<mapsto> PyInt 1234567, ''upload_date'' \<mapsto> PyStr ''20091025'',
         ''duration'' \<mapsto> PyInt 213))"
proof -
  let ?info = "(minimal_info ''dQw4w9WgXcQ'' ''https://youtu.be/dQw4w9WgXcQ'')
        (''view_count'' \<mapsto> PyInt 1234567, ''upload_date'' \<mapsto> PyStr ''20091025'',
         ''duration'' \<mapsto> PyInt 213)"
  have m: "metadata_section ?info
     = Inr [''### Metadata\<newline>'',
            ''- **Video ID**: dQw4w9WgXcQ'',
            ''- **Channel**: Unknown Channel'',
            ''- **Duration**: 3m 33s'',
            ''- **Views**: 1,234,567'',
            ''- **Upload Date**: 20091025'',
            ''- **URL**: https://youtu.be/dQw4w9WgXcQ\<newline>'']"
    by (simp add: metadata_section_def minimal_info_def dict_get_def exn_bind_def eval_text)
  have t: "truthy (dict_get ?info ''view_count'' PyNone)
           \<and> truthy (dict_get ?info ''upload_date'' PyNone)"
    by (simp add: dict_get_def)
  from metadata_section_lines[OF m] m t show ?thesis by blast
qed

end
